theory Spec2Isabelle
  imports Complex_Main
begin

section \<open>Python values\<close>

text \<open>
  The functions of \<^verbatim>\<open>inventory_system.py\<close> check the types of their arguments at run time
  (\<^verbatim>\<open>isinstance\<close>), so an argument is any Python value. The values that can reach the module
  as an argument or out of a JSON file are modelled: \<^verbatim>\<open>None\<close>, booleans, unbounded integers,
  floats, strings, lists and dicts with string keys. A float carries the number it denotes;
  NaN and the infinities are not represented. A dict is the list of its items in insertion
  order.
\<close>

datatype pyval =
    PyNone
  | PyBool bool
  | PyInt int
  | PyFloat real
  | PyStr string
  | PyList "pyval list"
  | PyDict "(string \<times> pyval) list"

text \<open>
  An exception that leaves a function of the module. \<^verbatim>\<open>KeyError\<close>, \<^verbatim>\<open>FileNotFoundError\<close>
  and \<^verbatim>\<open>JSONDecodeError\<close> are caught where they arise and never leave it.
\<close>

datatype pyexc = TypeError | ValueError | OSError

text \<open>
  How a call ends: it returns a value, it raises, or it reaches an operation this model
  leaves out (\<open>Unmodelled\<close>): arithmetic on a float, which rounds, and the order of
  two lists.
\<close>

datatype 'a result = Return 'a | Raise pyexc | Unmodelled

text \<open>\<^verbatim>\<open>isinstance(v, str)\<close>, with the string.\<close>

fun as_str :: "pyval \<Rightarrow> string option" where
  "as_str (PyStr s) = Some s"
| "as_str _ = None"

text \<open>
  \<^verbatim>\<open>isinstance(v, int)\<close>, with the integer. \<^verbatim>\<open>bool\<close> is a subclass of \<^verbatim>\<open>int\<close>:
  \<^verbatim>\<open>True\<close> counts as 1 and \<^verbatim>\<open>False\<close> as 0.
\<close>

fun as_int :: "pyval \<Rightarrow> int option" where
  "as_int (PyInt n) = Some n"
| "as_int (PyBool b) = Some (if b then 1 else 0)"
| "as_int _ = None"

text \<open>\<^verbatim>\<open>type(v).__name__\<close>, what \<^verbatim>\<open>type(item)\<close> stands for in a log record.\<close>

fun type_name :: "pyval \<Rightarrow> string" where
  "type_name PyNone = ''NoneType''"
| "type_name (PyBool _) = ''bool''"
| "type_name (PyInt _) = ''int''"
| "type_name (PyFloat _) = ''float''"
| "type_name (PyStr _) = ''str''"
| "type_name (PyList _) = ''list''"
| "type_name (PyDict _) = ''dict''"

text \<open>
  \<^verbatim>\<open>v + q\<close> and \<^verbatim>\<open>v - q\<close> for an integer \<open>q\<close> (the module only adds and subtracts a
  \<^verbatim>\<open>qty\<close> it has validated). The stored value \<open>v\<close> can be anything a JSON file held.
\<close>

fun add_int :: "pyval \<Rightarrow> int \<Rightarrow> int result" where
  "add_int (PyInt a) q = Return (a + q)"
| "add_int (PyBool b) q = Return ((if b then 1 else 0) + q)"
| "add_int (PyFloat x) q = Unmodelled"
| "add_int _ q = Raise TypeError"

fun sub_int :: "pyval \<Rightarrow> int \<Rightarrow> int result" where
  "sub_int (PyInt a) q = Return (a - q)"
| "sub_int (PyBool b) q = Return ((if b then 1 else 0) - q)"
| "sub_int (PyFloat x) q = Unmodelled"
| "sub_int _ q = Raise TypeError"

text \<open>Strings compare by code point, the shorter first on a common prefix.\<close>

fun str_lt :: "string \<Rightarrow> string \<Rightarrow> bool" where
  "str_lt [] [] = False"
| "str_lt [] (y # ys) = True"
| "str_lt (x # xs) [] = False"
| "str_lt (x # xs) (y # ys) =
     (if x = y then str_lt xs ys else (of_char x :: nat) < of_char y)"

text \<open>
  \<^verbatim>\<open>a < b\<close>. Numbers compare by value (an integer with a float exactly), strings with
  strings; two lists compare by their first differing elements, which is not modelled;
  every other pair raises \<^verbatim>\<open>TypeError\<close>.
\<close>

fun py_lt :: "pyval \<Rightarrow> pyval \<Rightarrow> bool result" where
  "py_lt (PyInt a) (PyInt b) = Return (a < b)"
| "py_lt (PyInt a) (PyBool b) = Return (a < (if b then 1 else 0))"
| "py_lt (PyBool a) (PyInt b) = Return ((if a then 1 else 0) < b)"
| "py_lt (PyBool a) (PyBool b) = Return (\<not> a \<and> b)"
| "py_lt (PyInt a) (PyFloat y) = Return (real_of_int a < y)"
| "py_lt (PyBool a) (PyFloat y) = Return ((if a then 1 else 0) < y)"
| "py_lt (PyFloat x) (PyInt b) = Return (x < real_of_int b)"
| "py_lt (PyFloat x) (PyBool b) = Return (x < (if b then 1 else 0))"
| "py_lt (PyFloat x) (PyFloat y) = Return (x < y)"
| "py_lt (PyStr s) (PyStr t) = Return (str_lt s t)"
| "py_lt (PyList xs) (PyList ys) = Unmodelled"
| "py_lt _ _ = Raise TypeError"

text \<open>\<^verbatim>\<open>str(q)\<close> for an integer: the decimal digits, with a minus sign when negative.\<close>

fun dec_nat :: "nat \<Rightarrow> string" where
  "dec_nat n =
     (if n < 10 then [''0123456789'' ! n]
      else dec_nat (n div 10) @ [''0123456789'' ! (n mod 10)])"

declare dec_nat.simps [simp del]

definition dec_int :: "int \<Rightarrow> string" where
  "dec_int i = (if i < 0 then CHR ''-'' # dec_nat (nat (- i)) else dec_nat (nat i))"

text \<open>
  CPython (3.11 and later, and the security releases before it) refuses to turn an integer
  of more than \<^verbatim>\<open>sys.get_int_max_str_digits()\<close> decimal digits into a string, 4300 by
  default: \<^verbatim>\<open>str\<close>, \<^verbatim>\<open>repr\<close> and an f-string raise \<^verbatim>\<open>ValueError\<close> there. The sign
  does not count.
\<close>

definition max_str_digits :: nat where
  "max_str_digits = 4300"

definition str_int_fits :: "int \<Rightarrow> bool" where
  "str_int_fits n = (\<bar>n\<bar> < 10 ^ max_str_digits)"

text \<open>
  \<^verbatim>\<open>f"{qty}"\<close> for a validated \<^verbatim>\<open>qty\<close>, an integer or a boolean. The text of any other
  value is not modelled.
\<close>

fun str_of_qty :: "pyval \<Rightarrow> string result" where
  "str_of_qty (PyBool b) = Return (if b then ''True'' else ''False'')"
| "str_of_qty (PyInt n) = (if str_int_fits n then Return (dec_int n) else Raise ValueError)"
| "str_of_qty _ = Unmodelled"

section \<open>Dicts\<close>

text \<open>
  A Python dict keeps its items in insertion order: storing under a key it has replaces
  the value where it stands, storing under a new key appends, deleting drops the item.
\<close>

type_synonym 'v dict = "(string \<times> 'v) list"

text \<open>\<^verbatim>\<open>d.get(k, default)\<close>\<close>

definition dict_get :: "'v dict \<Rightarrow> string \<Rightarrow> 'v \<Rightarrow> 'v" where
  "dict_get d k dflt = (case map_of d k of None \<Rightarrow> dflt | Some v \<Rightarrow> v)"

text \<open>\<^verbatim>\<open>d[k] = v\<close>\<close>

fun dict_set :: "string \<Rightarrow> 'v \<Rightarrow> 'v dict \<Rightarrow> 'v dict" where
  "dict_set k v [] = [(k, v)]"
| "dict_set k v ((k', v') # d) =
     (if k' = k then (k, v) # d else (k', v') # dict_set k v d)"

text \<open>\<^verbatim>\<open>del d[k]\<close>, for a key the dict has.\<close>

definition dict_del :: "string \<Rightarrow> 'v dict \<Rightarrow> 'v dict" where
  "dict_del k d = filter (\<lambda>kv. fst kv \<noteq> k) d"

text \<open>\<^verbatim>\<open>d.update(other)\<close>: stores the items of \<open>other\<close> one by one, in its order.\<close>

definition dict_update :: "'v dict \<Rightarrow> 'v dict \<Rightarrow> 'v dict" where
  "dict_update d other = fold (\<lambda>kv acc. dict_set (fst kv) (snd kv) acc) other d"

section \<open>The world of the module\<close>

text \<open>
  The module's state is the global dict \<^verbatim>\<open>stock_data\<close>. Around it stand the
  \<^verbatim>\<open>logging\<close> module, modelled by the list of the calls made to it, and the file
  system. A logging call keeps its level, its format string and its arguments
  (\<^verbatim>\<open>type(item)\<close> by the name of the type); \<^verbatim>\<open>logging.exception\<close> logs at
  level \<^verbatim>\<open>ERROR\<close> with the traceback (\<open>exc_info\<close>).
\<close>

datatype level = INFO | WARNING | ERROR

datatype log_arg = ArgVal pyval | ArgType string

record log_record =
  levelname :: level
  msg :: string
  args :: "log_arg list"
  exc_info :: bool

text \<open>
  What \<^verbatim>\<open>open(path, "r")\<close> finds: no file (\<^verbatim>\<open>FileNotFoundError\<close>), a text file, or
  something \<^verbatim>\<open>open\<close> fails on in both modes with an \<^verbatim>\<open>OSError\<close> other than
  \<^verbatim>\<open>FileNotFoundError\<close> (a directory, a file without permission). Whether
  \<^verbatim>\<open>open(path, "w")\<close> succeeds is the field \<open>writable\<close>: under a missing directory it
  raises \<^verbatim>\<open>FileNotFoundError\<close>, in a read-only directory or on a read-only file
  \<^verbatim>\<open>PermissionError\<close>, both of them \<^verbatim>\<open>OSError\<close>. Where it succeeds it creates the
  file or empties the one there. A file is read in one step.
\<close>

datatype fnode = NoFile | TextFile string | OpenFails

record world =
  stock_data :: "pyval dict"
  logging :: "log_record list"
  files :: "string \<Rightarrow> fnode"
  writable :: "string \<Rightarrow> bool"

definition log_call :: "level \<Rightarrow> string \<Rightarrow> log_arg list \<Rightarrow> world \<Rightarrow> world" where
  "log_call lv fmt as w =
     w\<lparr>logging := logging w @ [\<lparr>levelname = lv, msg = fmt, args = as, exc_info = False\<rparr>]\<rparr>"

definition log_exception :: "string \<Rightarrow> log_arg list \<Rightarrow> world \<Rightarrow> world" where
  "log_exception fmt as w =
     w\<lparr>logging := logging w @ [\<lparr>levelname = ERROR, msg = fmt, args = as, exc_info = True\<rparr>]\<rparr>"

section \<open>The inventory operations\<close>

text \<open>
  \<^verbatim>\<open>add_item(item, qty, logs)\<close>. \<open>now\<close> is the text of \<^verbatim>\<open>datetime.now()\<close> at the
  call. \<open>logs\<close> is the caller's list, or \<open>None\<close> when the caller passes none (the function
  then appends to a list of its own, which nobody sees). The returned value is the
  caller's list after the call. The message is formatted after the sum is stored, whether
  or not the caller passed a list, so a \<^verbatim>\<open>ValueError\<close> of the f-string leaves the new
  quantity in \<^verbatim>\<open>stock_data\<close>.
\<close>

definition add_item ::
  "string \<Rightarrow> pyval \<Rightarrow> pyval \<Rightarrow> string list option \<Rightarrow> world \<Rightarrow> string list option result \<times> world"
where
  "add_item now item qty logs w =
     (case as_str item of
        None \<Rightarrow>
          (Return logs,
           log_call ERROR ''add_item: 'item' must be a str (got %s). Skipping.''
             [ArgType (type_name item)] w)
      | Some name \<Rightarrow>
          (let skip =
             (Return logs,
              log_call ERROR ''add_item: 'qty' must be a non-negative int (got %r). Skipping.''
                [ArgVal qty] w)
           in case as_int qty of
             None \<Rightarrow> skip
           | Some q \<Rightarrow>
               if q < 0 then skip
               else if name = [] then (Return logs, w)
               else
                 (case add_int (dict_get (stock_data w) name (PyInt 0)) q of
                    Return n \<Rightarrow>
                      (let w' = w\<lparr>stock_data := dict_set name (PyInt n) (stock_data w)\<rparr>
                       in case str_of_qty qty of
                         Return s \<Rightarrow>
                           (Return (map_option
                              (\<lambda>l. l @ [now @ '': Added '' @ s @ '' of '' @ name]) logs),
                            w')
                       | Raise e \<Rightarrow> (Raise e, w')
                       | Unmodelled \<Rightarrow> (Unmodelled, w'))
                  | Raise e \<Rightarrow> (Raise e, w)
                  | Unmodelled \<Rightarrow> (Unmodelled, w))))"

text \<open>
  \<^verbatim>\<open>remove_item(item, qty)\<close>. A missing key raises \<^verbatim>\<open>KeyError\<close> at the subtraction,
  which is caught and logged as a warning. The difference is stored first and the item
  deleted when it is zero or less.
\<close>

definition remove_item :: "pyval \<Rightarrow> pyval \<Rightarrow> world \<Rightarrow> unit result \<times> world" where
  "remove_item item qty w =
     (case as_str item of
        None \<Rightarrow>
          (Return (),
           log_call ERROR ''remove_item: 'item' must be a str (got %s). Skipping.''
             [ArgType (type_name item)] w)
      | Some name \<Rightarrow>
          (let skip =
             (Return (),
              log_call ERROR ''remove_item: 'qty' must be a positive int (got %r). Skipping.''
                [ArgVal qty] w)
           in case as_int qty of
             None \<Rightarrow> skip
           | Some q \<Rightarrow>
               if q \<le> 0 then skip
               else
                 (case map_of (stock_data w) name of
                    None \<Rightarrow>
                      (Return (),
                       log_call WARNING ''remove_item: item '%s' not found in stock.''
                         [ArgVal item] w)
                  | Some v \<Rightarrow>
                      (case sub_int v q of
                         Return n \<Rightarrow>
                           (Return (),
                            w\<lparr>stock_data :=
                                (if n \<le> 0
                                 then dict_del name (dict_set name (PyInt n) (stock_data w))
                                 else dict_set name (PyInt n) (stock_data w))\<rparr>)
                       | Raise e \<Rightarrow> (Raise e, w)
                       | Unmodelled \<Rightarrow> (Unmodelled, w)))))"

text \<open>\<^verbatim>\<open>get_qty(item)\<close>\<close>

definition get_qty :: "pyval \<Rightarrow> world \<Rightarrow> pyval result \<times> world" where
  "get_qty item w =
     (case as_str item of
        None \<Rightarrow>
          (Return (PyInt 0),
           log_call ERROR ''get_qty: 'item' must be a str (got %s).'' [ArgType (type_name item)] w)
      | Some name \<Rightarrow> (Return (dict_get (stock_data w) name (PyInt 0)), w))"

text \<open>
  \<^verbatim>\<open>load_data(file)\<close>. \<open>json_loads\<close> stands for Python's \<^verbatim>\<open>json.load\<close> on the text of
  the file: the decoded value, or \<open>None\<close> where it raises \<^verbatim>\<open>JSONDecodeError\<close>. The
  \<^verbatim>\<open>json\<close> module is not part of the repository, so it is a parameter. An
  \<^verbatim>\<open>OSError\<close> of \<^verbatim>\<open>open\<close> other than \<^verbatim>\<open>FileNotFoundError\<close> is not caught.
\<close>

definition load_data :: "(string \<Rightarrow> pyval option) \<Rightarrow> string \<Rightarrow> world \<Rightarrow> unit result \<times> world" where
  "load_data json_loads file w =
     (case files w file of
        NoFile \<Rightarrow>
          (Return (),
           log_call WARNING ''load_data: file %s not found - starting with empty inventory''
             [ArgVal (PyStr file)] w)
      | OpenFails \<Rightarrow> (Raise OSError, w)
      | TextFile content \<Rightarrow>
          (case json_loads content of
             None \<Rightarrow>
               (Return (),
                log_exception ''load_data: failed to decode JSON from %s'' [ArgVal (PyStr file)] w)
           | Some (PyDict d) \<Rightarrow> (Return (), w\<lparr>stock_data := dict_update [] d\<rparr>)
           | Some _ \<Rightarrow>
               (Return (),
                log_call ERROR ''load_data: expected a JSON object/dict in %s''
                  [ArgVal (PyStr file)] w)))"

text \<open>
  What \<^verbatim>\<open>json.dump(obj, f, ensure_ascii=False, indent=2)\<close> does: it writes the whole
  text, or it raises \<^verbatim>\<open>ValueError\<close> with a part of the text written (an integer of more
  than 4300 digits among the values). Every value of the model is serialisable, so it
  does not raise \<^verbatim>\<open>TypeError\<close>.
\<close>

datatype dumped = Dumped string | DumpRaises string

text \<open>
  \<^verbatim>\<open>save_data(file)\<close>. \<open>json_dumps\<close> stands for \<^verbatim>\<open>json.dump\<close>, a parameter like
  \<open>json_loads\<close>. Any \<^verbatim>\<open>OSError\<close> of \<^verbatim>\<open>open\<close> is caught and logged, and nothing is
  written then. A \<^verbatim>\<open>ValueError\<close> of \<^verbatim>\<open>json.dump\<close> is not caught; the file is left
  with what was written before it.
\<close>

definition save_data :: "(pyval \<Rightarrow> dumped) \<Rightarrow> string \<Rightarrow> world \<Rightarrow> unit result \<times> world" where
  "save_data json_dumps file w =
     (if files w file = OpenFails \<or> \<not> writable w file then
        (Return (),
         log_exception ''save_data: failed to write to %s'' [ArgVal (PyStr file)] w)
      else
        (case json_dumps (PyDict (stock_data w)) of
           Dumped content \<Rightarrow>
             (Return (), w\<lparr>files := (files w)(file := TextFile content)\<rparr>)
         | DumpRaises part \<Rightarrow>
             (Raise ValueError, w\<lparr>files := (files w)(file := TextFile part)\<rparr>)))"

text \<open>\<^verbatim>\<open>print_data()\<close>: a heading, then one record for each key, in the dict's order.\<close>

fun print_loop :: "pyval dict \<Rightarrow> string list \<Rightarrow> world \<Rightarrow> world" where
  "print_loop d [] w = w"
| "print_loop d (i # rest) w =
     print_loop d rest
       (log_call INFO ''%s -> %s'' [ArgVal (PyStr i), ArgVal (dict_get d i PyNone)] w)"

definition print_data :: "world \<Rightarrow> unit result \<times> world" where
  "print_data w =
     (Return (),
      print_loop (stock_data w) (map fst (stock_data w)) (log_call INFO ''Items Report'' [] w))"

text \<open>
  \<^verbatim>\<open>check_low_items(threshold)\<close>: the loop over the keys, with the list \<^verbatim>\<open>result\<close>
  built so far. A comparison that raises ends the call.
\<close>

fun low_loop :: "pyval dict \<Rightarrow> pyval \<Rightarrow> string list \<Rightarrow> string list \<Rightarrow> string list result" where
  "low_loop d threshold [] res = Return res"
| "low_loop d threshold (i # rest) res =
     (case py_lt (dict_get d i (PyInt 0)) threshold of
        Return b \<Rightarrow> low_loop d threshold rest (if b then res @ [i] else res)
      | Raise e \<Rightarrow> Raise e
      | Unmodelled \<Rightarrow> Unmodelled)"

definition check_low_items :: "pyval \<Rightarrow> world \<Rightarrow> string list result \<times> world" where
  "check_low_items threshold w =
     (low_loop (stock_data w) threshold (map fst (stock_data w)) [], w)"

section \<open>Sequences of calls\<close>

text \<open>
  A caller's script of \<^verbatim>\<open>add_item\<close> and \<^verbatim>\<open>remove_item\<close> calls, run in order, with
  how each call ended. The caller goes on after a call that raises (it catches the
  exception); a script that stops at the exception has run a prefix of these calls.
\<close>

datatype op = Add string pyval pyval "string list option" | Remove pyval pyval

fun step :: "op \<Rightarrow> world \<Rightarrow> unit result \<times> world" where
  "step (Add now item qty logs) w =
     (case add_item now item qty logs w of
        (Return _, w') \<Rightarrow> (Return (), w')
      | (Raise e, w') \<Rightarrow> (Raise e, w')
      | (Unmodelled, w') \<Rightarrow> (Unmodelled, w'))"
| "step (Remove item qty) w = remove_item item qty w"

fun run :: "op list \<Rightarrow> world \<Rightarrow> unit result list \<times> world" where
  "run [] w = ([], w)"
| "run (x # xs) w =
     (case step x w of
        (r, w') \<Rightarrow> (case run xs w' of (rs, w'') \<Rightarrow> (r # rs, w'')))"




text \<open>The integer a value counts as (see \<open>as_int\<close>).\<close>

definition int_of :: "pyval \<Rightarrow> int" where
  "int_of v = (case as_int v of Some n \<Rightarrow> n | None \<Rightarrow> 0)"

text \<open>The records one call of \<^verbatim>\<open>print_data\<close> sends to \<^verbatim>\<open>logging\<close>.\<close>

definition report :: "world \<Rightarrow> log_record list" where
  "report w = drop (length (logging w)) (logging (snd (print_data w)))"

text \<open>
  The module just imported, with no file anywhere and every path free to write:
  \<^verbatim>\<open>stock_data = {}\<close>.
\<close>

definition empty_world :: world where
  "empty_world =
     \<lparr>stock_data = [], logging = [], files = (\<lambda>path. NoFile), writable = (\<lambda>path. True)\<rparr>"

section \<open>Facts about dicts and the log\<close>

lemma log_call_simps [simp]:
  "stock_data (log_call lv fmt as w) = stock_data w"
  "files (log_call lv fmt as w) = files w"
  "writable (log_call lv fmt as w) = writable w"
  "logging (log_call lv fmt as w) =
     logging w @ [\<lparr>levelname = lv, msg = fmt, args = as, exc_info = False\<rparr>]"
  by (simp_all add: log_call_def)

lemma log_exception_simps [simp]:
  "stock_data (log_exception fmt as w) = stock_data w"
  "files (log_exception fmt as w) = files w"
  "writable (log_exception fmt as w) = writable w"
  "logging (log_exception fmt as w) =
     logging w @ [\<lparr>levelname = ERROR, msg = fmt, args = as, exc_info = True\<rparr>]"
  by (simp_all add: log_exception_def)

lemma log_call_appends:
  "\<exists>r. levelname r = lv \<and> log_call lv fmt as w = w\<lparr>logging := logging w @ [r]\<rparr>"
  unfolding log_call_def
  by (rule exI [of _ "\<lparr>levelname = lv, msg = fmt, args = as, exc_info = False\<rparr>"]) simp

lemma map_of_dict_set: "map_of (dict_set k v d) = (map_of d)(k \<mapsto> v)"
  by (induction d) (auto simp: fun_eq_iff)

lemma map_of_dict_del: "map_of (dict_del k d) = (map_of d)(k := None)"
  by (induction d) (auto simp: dict_del_def fun_eq_iff)

lemma dict_del_dict_set: "dict_del k (dict_set k v d) = dict_del k d"
  by (induction d) (auto simp: dict_del_def)


lemma dict_get_dict_set: "dict_get (dict_set k v d) k dflt = v"
  by (simp add: dict_get_def map_of_dict_set)

lemma dict_get_member:
  "distinct (map fst d) \<Longrightarrow> kv \<in> set d \<Longrightarrow> dict_get d (fst kv) dflt = snd kv"
  by (cases kv) (simp add: dict_get_def)

section \<open>Integers and their text\<close>

lemma str_int_fits_small: "\<bar>n\<bar> < 10000 \<Longrightarrow> str_int_fits n"
proof -
  assume small: "\<bar>n\<bar> < 10000"
  have "(10::int) ^ 4 \<le> 10 ^ max_str_digits"
    by (rule power_increasing) (simp_all add: max_str_digits_def)
  then show ?thesis using small by (simp add: str_int_fits_def)
qed

lemma str_int_fits_limit: "\<not> str_int_fits (10 ^ max_str_digits)"
  by (simp add: str_int_fits_def)


section \<open>Quantities never go below zero\<close>













section \<open>Adding\<close>

lemma add_item_int:
  assumes "name \<noteq> []" "0 \<le> q" "dict_get (stock_data w) name (PyInt 0) = PyInt c"
  shows "add_item now (PyStr name) (PyInt q) None w =
           (if str_int_fits q then Return None else Raise ValueError,
            w\<lparr>stock_data := dict_set name (PyInt (c + q)) (stock_data w)\<rparr>)"
  using assms by (simp add: add_item_def)

text \<open>
  Claim C3: for a non-empty name and a sequence of non-negative integer quantities, adding
  each quantity in turn (at any times \<open>fst tq\<close>) leaves \<^verbatim>\<open>get_qty\<close> returning the quantity
  stored before the sequence (0 for an absent item) plus the sum of the quantities. An add
  returns normally when its quantity has at most 4300 digits and raises \<^verbatim>\<open>ValueError\<close>
  otherwise; the quantity is stored before the exception, so the sum counts it too.
\<close>

theorem adds_accumulate:
  "name \<noteq> [] \<Longrightarrow> \<forall>tq \<in> set tqs. 0 \<le> snd tq \<Longrightarrow>
   dict_get (stock_data w) name (PyInt 0) = PyInt c \<Longrightarrow>
   fst (run (map (\<lambda>tq. Add (fst tq) (PyStr name) (PyInt (snd tq)) None) tqs) w) =
     map (\<lambda>tq. if str_int_fits (snd tq) then Return () else Raise ValueError) tqs \<and>
   fst (get_qty (PyStr name)
          (snd (run (map (\<lambda>tq. Add (fst tq) (PyStr name) (PyInt (snd tq)) None) tqs) w))) =
     Return (PyInt (c + sum_list (map snd tqs)))"
proof (induction tqs arbitrary: w c)
  case Nil
  then show ?case by (simp add: get_qty_def)
next
  case (Cons tq tqs)
  let ?w = "w\<lparr>stock_data := dict_set name (PyInt (c + snd tq)) (stock_data w)\<rparr>"
  let ?ops = "map (\<lambda>tq. Add (fst tq) (PyStr name) (PyInt (snd tq)) None) tqs"
  have q: "0 \<le> snd tq" and rest: "\<forall>x \<in> set tqs. 0 \<le> snd x"
    using Cons.prems(2) by simp_all
  have one: "add_item (fst tq) (PyStr name) (PyInt (snd tq)) None w =
               (if str_int_fits (snd tq) then Return None else Raise ValueError, ?w)"
    using Cons.prems(1) q Cons.prems(3) by (rule add_item_int)
  have stored: "dict_get (stock_data ?w) name (PyInt 0) = PyInt (c + snd tq)"
    by (simp add: dict_get_dict_set)
  obtain rs w'' where t: "run ?ops ?w = (rs, w'')" by (cases "run ?ops ?w")
  show ?case
    using Cons.IH [OF Cons.prems(1) rest stored] one t by (simp add: add.assoc)
qed

theorem adds_accumulate_witness:
  "fst (run (map (\<lambda>tq. Add (fst tq) (PyStr ''apple'') (PyInt (snd tq)) None)
              [(''t1'', 10), (''t2'', 0), (''t3'', 5)])
         (empty_world\<lparr>stock_data := [(''apple'', PyInt 2)]\<rparr>)) =
     [Return (), Return (), Return ()] \<and>
   fst (get_qty (PyStr ''apple'')
          (snd (run (map (\<lambda>tq. Add (fst tq) (PyStr ''apple'') (PyInt (snd tq)) None)
                  [(''t1'', 10), (''t2'', 0), (''t3'', 5)])
                (empty_world\<lparr>stock_data := [(''apple'', PyInt 2)]\<rparr>)))) = Return (PyInt 17)"
  using adds_accumulate [of "''apple''" "[(''t1'', 10), (''t2'', 0), (''t3'', 5)]"
                   "empty_world\<lparr>stock_data := [(''apple'', PyInt 2)]\<rparr>" 2]
  by (simp add: dict_get_def str_int_fits_small)

text \<open>
  Claim C9: \<^verbatim>\<open>add_item\<close> with the empty string as item and a non-negative integer quantity
  returns with the world as it was (no entry made, nothing logged) and the caller's list
  as it was.
\<close>

theorem add_empty_name_changes_nothing:
  "as_int qty = Some q \<Longrightarrow> 0 \<le> q \<Longrightarrow> add_item now (PyStr []) qty logs w = (Return logs, w)"
  by (simp add: add_item_def)

theorem add_empty_name_changes_nothing_witness:
  "add_item ''t'' (PyStr []) (PyInt 4) (Some [''earlier'']) empty_world =
     (Return (Some [''earlier'']), empty_world)"
  using add_empty_name_changes_nothing [of "PyInt 4" 4 "''t''" "Some [''earlier'']" empty_world]
  by simp

section \<open>Validation\<close>

text \<open>
  Claim C6: \<^verbatim>\<open>add_item\<close> called with an item that is not a string, or a quantity that is
  not an integer or is negative, returns with the caller's list as it was and the world
  changed by one logged error only; \<^verbatim>\<open>remove_item\<close> does the same for an item that is
  not a string and a quantity that is not an integer, negative or zero.
\<close>

theorem invalid_arguments_rejected:
  "((as_str item = None \<or> as_int qty = None \<or> (\<exists>q. as_int qty = Some q \<and> q < 0)) \<longrightarrow>
      (\<exists>r. levelname r = ERROR \<and>
         add_item now item qty logs w = (Return logs, w\<lparr>logging := logging w @ [r]\<rparr>))) \<and>
   ((as_str item = None \<or> as_int qty = None \<or> (\<exists>q. as_int qty = Some q \<and> q \<le> 0)) \<longrightarrow>
      (\<exists>r. levelname r = ERROR \<and>
         remove_item item qty w = (Return (), w\<lparr>logging := logging w @ [r]\<rparr>)))"
  by (auto simp: add_item_def remove_item_def log_call_appends Let_def split: option.splits)

theorem invalid_arguments_rejected_witness:
  "(\<exists>r. levelname r = ERROR \<and>
      add_item ''t'' (PyStr ''apple'') (PyFloat 2.5) (Some []) empty_world =
        (Return (Some []), empty_world\<lparr>logging := logging empty_world @ [r]\<rparr>)) \<and>
   (\<exists>r. levelname r = ERROR \<and>
      remove_item (PyStr ''apple'') (PyInt 0) empty_world =
        (Return (), empty_world\<lparr>logging := logging empty_world @ [r]\<rparr>))"
  using invalid_arguments_rejected [of "PyStr ''apple''" "PyFloat 2.5" "''t''" "Some []" empty_world]
    invalid_arguments_rejected [of "PyStr ''apple''" "PyInt 0" "''t''" "Some []" empty_world]
  by simp

text \<open>
  Claim C10: a boolean quantity passes the validation of both functions. For a non-empty
  name whose stored quantity is the integer \<open>c\<close> (0 when absent), \<^verbatim>\<open>add_item\<close> with
  \<^verbatim>\<open>True\<close> stores \<open>c + 1\<close> and with \<^verbatim>\<open>False\<close> stores \<open>c\<close>, logging no error; and
  \<^verbatim>\<open>remove_item\<close> with \<^verbatim>\<open>True\<close> on a present item subtracts 1, deleting the item when
  the difference is zero or less.
\<close>

theorem booleans_pass_validation:
  "name \<noteq> [] \<Longrightarrow> dict_get (stock_data w) name (PyInt 0) = PyInt c \<Longrightarrow>
   add_item now (PyStr name) (PyBool True) logs w =
     (Return (map_option (\<lambda>l. l @ [now @ '': Added True of '' @ name]) logs),
      w\<lparr>stock_data := dict_set name (PyInt (c + 1)) (stock_data w)\<rparr>) \<and>
   add_item now (PyStr name) (PyBool False) logs w =
     (Return (map_option (\<lambda>l. l @ [now @ '': Added False of '' @ name]) logs),
      w\<lparr>stock_data := dict_set name (PyInt c) (stock_data w)\<rparr>) \<and>
   (map_of (stock_data w) name = Some (PyInt c) \<longrightarrow>
      remove_item (PyStr name) (PyBool True) w =
        (Return (),
         w\<lparr>stock_data :=
            (if c - 1 \<le> 0 then dict_del name (stock_data w)
             else dict_set name (PyInt (c - 1)) (stock_data w))\<rparr>))"
  by (simp add: add_item_def remove_item_def dict_del_dict_set)

theorem booleans_pass_validation_witness:
  "add_item ''t'' (PyStr ''apple'') (PyBool True) None
     (empty_world\<lparr>stock_data := [(''apple'', PyInt 2)]\<rparr>) =
     (Return None, empty_world\<lparr>stock_data := [(''apple'', PyInt 3)]\<rparr>) \<and>
   add_item ''t'' (PyStr ''apple'') (PyBool False) None
     (empty_world\<lparr>stock_data := [(''apple'', PyInt 2)]\<rparr>) =
     (Return None, empty_world\<lparr>stock_data := [(''apple'', PyInt 2)]\<rparr>) \<and>
   remove_item (PyStr ''apple'') (PyBool True)
     (empty_world\<lparr>stock_data := [(''apple'', PyInt 2)]\<rparr>) =
     (Return (), empty_world\<lparr>stock_data := [(''apple'', PyInt 1)]\<rparr>)"
  using booleans_pass_validation
    [of "''apple''" "empty_world\<lparr>stock_data := [(''apple'', PyInt 2)]\<rparr>" 2 "''t''" None]
  by (simp add: dict_get_def)

section \<open>Removing\<close>

text \<open>
  Claim C7: \<^verbatim>\<open>remove_item\<close> of a string that is not a key, with a positive integer
  quantity, returns normally; the world changes by one logged warning and nothing else.
\<close>

theorem remove_absent_only_warns:
  "map_of (stock_data w) name = None \<Longrightarrow> as_int qty = Some q \<Longrightarrow> 0 < q \<Longrightarrow>
   remove_item (PyStr name) qty w =
     (Return (),
      w\<lparr>logging := logging w @
         [\<lparr>levelname = WARNING, msg = ''remove_item: item '%s' not found in stock.'',
           args = [ArgVal (PyStr name)], exc_info = False\<rparr>]\<rparr>)"
  by (simp add: remove_item_def log_call_def)

theorem remove_absent_only_warns_witness:
  "remove_item (PyStr ''pear'') (PyInt 2) (empty_world\<lparr>stock_data := [(''apple'', PyInt 7)]\<rparr>) =
     (Return (),
      empty_world\<lparr>stock_data := [(''apple'', PyInt 7)],
        logging := [\<lparr>levelname = WARNING, msg = ''remove_item: item '%s' not found in stock.'',
           args = [ArgVal (PyStr ''pear'')], exc_info = False\<rparr>]\<rparr>)"
  using remove_absent_only_warns
    [of "empty_world\<lparr>stock_data := [(''apple'', PyInt 7)]\<rparr>" "''pear''" "PyInt 2" 2]
  by (simp add: empty_world_def)

section \<open>Low stock\<close>

lemma py_lt_int: "as_int a = Some x \<Longrightarrow> as_int b = Some y \<Longrightarrow> py_lt a b = Return (x < y)"
  by (cases a; cases b) (auto split: if_splits)

lemma low_loop_int:
  assumes "as_int threshold = Some t"
    and "\<forall>k \<in> set ks. as_int (dict_get d k (PyInt 0)) \<noteq> None"
  shows "low_loop d threshold ks res =
           Return (res @ filter (\<lambda>k. int_of (dict_get d k (PyInt 0)) < t) ks)"
  using assms(2)
proof (induction ks arbitrary: res)
  case Nil
  then show ?case by simp
next
  case (Cons k ks)
  then obtain x where x: "as_int (dict_get d k (PyInt 0)) = Some x" by auto
  have lt: "py_lt (dict_get d k (PyInt 0)) threshold = Return (x < t)"
    using x assms(1) by (rule py_lt_int)
  have "\<forall>k \<in> set ks. as_int (dict_get d k (PyInt 0)) \<noteq> None" using Cons.prems by simp
  then show ?case using Cons.IH lt x by (simp add: int_of_def)
qed

text \<open>
  Claim C8: on an inventory (a dict, so its keys are distinct) whose quantities are
  integers, \<^verbatim>\<open>check_low_items\<close> with an integer threshold returns the names of exactly the
  items whose quantity is below the threshold, in the dict's order, and leaves the world
  as it was.
\<close>

theorem low_items_are_those_below_threshold:
  assumes "distinct (map fst (stock_data w))"
    and "\<forall>kv \<in> set (stock_data w). as_int (snd kv) \<noteq> None"
    and "as_int threshold = Some t"
  shows "check_low_items threshold w =
           (Return (map fst (filter (\<lambda>kv. int_of (snd kv) < t) (stock_data w))), w)"
proof -
  let ?d = "stock_data w"
  have own: "\<And>kv. kv \<in> set ?d \<Longrightarrow> dict_get ?d (fst kv) (PyInt 0) = snd kv"
    using assms(1) by (rule dict_get_member)
  have ints: "\<forall>k \<in> set (map fst ?d). as_int (dict_get ?d k (PyInt 0)) \<noteq> None"
    using assms(2) own by auto
  have "filter (\<lambda>k. int_of (dict_get ?d k (PyInt 0)) < t) (map fst ?d) =
        map fst (filter (\<lambda>kv. int_of (dict_get ?d (fst kv) (PyInt 0)) < t) ?d)"
    by (simp add: filter_map comp_def)
  also have "\<dots> = map fst (filter (\<lambda>kv. int_of (snd kv) < t) ?d)"
    using own by (simp cong: filter_cong)
  finally show ?thesis
    using low_loop_int [OF assms(3) ints, of "[]"] by (simp add: check_low_items_def)
qed

theorem low_items_are_those_below_threshold_witness:
  "check_low_items (PyInt 5)
     (empty_world\<lparr>stock_data :=
        [(''apple'', PyInt 7), (''banana'', PyInt 2), (''orange'', PyInt 4)]\<rparr>) =
   (Return [''banana'', ''orange''],
    empty_world\<lparr>stock_data :=
        [(''apple'', PyInt 7), (''banana'', PyInt 2), (''orange'', PyInt 4)]\<rparr>)"
  using low_items_are_those_below_threshold
    [of "empty_world\<lparr>stock_data :=
           [(''apple'', PyInt 7), (''banana'', PyInt 2), (''orange'', PyInt 4)]\<rparr>"
        "PyInt 5" 5]
  by (simp add: int_of_def)

section \<open>Removing a whole entry\<close>

lemma logging_print_loop:
  "logging (print_loop d ks w) =
     logging w @ map (\<lambda>i. \<lparr>levelname = INFO, msg = ''%s -> %s'',
                          args = [ArgVal (PyStr i), ArgVal (dict_get d i PyNone)],
                          exc_info = False\<rparr>) ks"
  by (induction ks arbitrary: w) simp_all

lemma report_lines:
  "report w =
     \<lparr>levelname = INFO, msg = ''Items Report'', args = [], exc_info = False\<rparr> #
     map (\<lambda>i. \<lparr>levelname = INFO, msg = ''%s -> %s'',
               args = [ArgVal (PyStr i), ArgVal (dict_get (stock_data w) i PyNone)],
               exc_info = False\<rparr>) (map fst (stock_data w))"
  by (simp add: report_def print_data_def logging_print_loop)

lemma low_loop_subset:
  "low_loop d threshold ks res = Return names \<Longrightarrow> set names \<subseteq> set res \<union> set ks"
proof (induction ks arbitrary: res)
  case Nil
  then show ?case by simp
next
  case (Cons k ks)
  then show ?case by (fastforce split: result.splits if_splits)
qed

lemma keys_dict_del: "k \<notin> fst ` set (dict_del k d)"
  by (auto simp: dict_del_def)

text \<open>
  Claim C5: for an item stored with the integer quantity \<open>c\<close> and a positive integer
  \<open>qty\<close> of at least \<open>c\<close>, \<^verbatim>\<open>remove_item\<close> returns normally and deletes the entry (and
  does nothing else). Afterwards \<^verbatim>\<open>get_qty\<close> returns 0 for the item, no result of
  \<^verbatim>\<open>check_low_items\<close>, whatever the threshold, holds the item, and no record of
  \<^verbatim>\<open>print_data\<close> has the item in its name column (the first argument).
\<close>

theorem remove_all_deletes_entry:
  assumes "map_of (stock_data w) name = Some (PyInt c)"
    and "as_int qty = Some q" and "0 < q" and "c \<le> q"
  shows "remove_item (PyStr name) qty w =
           (Return (), w\<lparr>stock_data := dict_del name (stock_data w)\<rparr>) \<and>
         get_qty (PyStr name) (w\<lparr>stock_data := dict_del name (stock_data w)\<rparr>) =
           (Return (PyInt 0), w\<lparr>stock_data := dict_del name (stock_data w)\<rparr>) \<and>
         (\<forall>threshold names.
            fst (check_low_items threshold (w\<lparr>stock_data := dict_del name (stock_data w)\<rparr>)) =
              Return names \<longrightarrow> name \<notin> set names) \<and>
         (\<forall>r \<in> set (report (w\<lparr>stock_data := dict_del name (stock_data w)\<rparr>)).
            ArgVal (PyStr name) \<notin> set (take 1 (args r)))"
proof -
  let ?w = "w\<lparr>stock_data := dict_del name (stock_data w)\<rparr>"
  have gone: "name \<notin> set (map fst (stock_data ?w))"
    using keys_dict_del [of name "stock_data w"] by simp
  have a: "remove_item (PyStr name) qty w = (Return (), ?w)"
    using assms by (simp add: remove_item_def dict_del_dict_set)
  have b: "get_qty (PyStr name) ?w = (Return (PyInt 0), ?w)"
    by (simp add: get_qty_def dict_get_def map_of_dict_del)
  have c: "\<forall>threshold names. fst (check_low_items threshold ?w) = Return names \<longrightarrow>
             name \<notin> set names"
  proof (intro allI impI)
    fix threshold names
    assume "fst (check_low_items threshold ?w) = Return names"
    then have "set names \<subseteq> set (map fst (stock_data ?w))"
      using low_loop_subset [of "stock_data ?w" threshold "map fst (stock_data ?w)" "[]" names]
      by (simp add: check_low_items_def)
    then show "name \<notin> set names" using gone by blast
  qed
  have d: "\<forall>r \<in> set (report ?w). ArgVal (PyStr name) \<notin> set (take 1 (args r))"
    using gone by (auto simp: report_lines)
  show ?thesis using a b c d by blast
qed

theorem remove_all_deletes_entry_witness:
  "remove_item (PyStr ''banana'') (PyInt 5)
     (empty_world\<lparr>stock_data := [(''apple'', PyInt 7), (''banana'', PyInt 2)]\<rparr>) =
     (Return (), empty_world\<lparr>stock_data := [(''apple'', PyInt 7)]\<rparr>) \<and>
   get_qty (PyStr ''banana'') (empty_world\<lparr>stock_data := [(''apple'', PyInt 7)]\<rparr>) =
     (Return (PyInt 0), empty_world\<lparr>stock_data := [(''apple'', PyInt 7)]\<rparr>) \<and>
   fst (check_low_items (PyInt 100) (empty_world\<lparr>stock_data := [(''apple'', PyInt 7)]\<rparr>)) =
     Return [''apple''] \<and>
   map args (report (empty_world\<lparr>stock_data := [(''apple'', PyInt 7)]\<rparr>)) =
     [[], [ArgVal (PyStr ''apple''), ArgVal (PyInt 7)]]"
  using remove_all_deletes_entry
    [of "empty_world\<lparr>stock_data := [(''apple'', PyInt 7), (''banana'', PyInt 2)]\<rparr>"
        "''banana''" 2 "PyInt 5" 5]
  by (simp add: dict_del_def check_low_items_def dict_get_def report_def print_data_def
                empty_world_def)

section \<open>Persistence\<close>

text \<open>
  Claim C4: when the path names no file, or the file's text does not decode as JSON, or it
  decodes to a value that is not a dict, \<^verbatim>\<open>load_data\<close> returns normally and leaves
  \<^verbatim>\<open>stock_data\<close> (and the file system) as it was.
\<close>

theorem failed_load_keeps_inventory:
  "files w file = NoFile \<or>
   (\<exists>content. files w file = TextFile content \<and>
      (json_loads content = None \<or>
       (\<exists>v. json_loads content = Some v \<and> (\<forall>d. v \<noteq> PyDict d)))) \<Longrightarrow>
   fst (load_data json_loads file w) = Return () \<and>
   stock_data (snd (load_data json_loads file w)) = stock_data w \<and>
   files (snd (load_data json_loads file w)) = files w"
  by (auto simp: load_data_def split: fnode.splits option.splits pyval.splits)

theorem failed_load_keeps_inventory_witness:
  "stock_data (snd (load_data (\<lambda>content. None) ''inventory.json''
     (empty_world\<lparr>stock_data := [(''apple'', PyInt 7)]\<rparr>))) = [(''apple'', PyInt 7)] \<and>
   stock_data (snd (load_data (\<lambda>content. None) ''inventory.json''
     (empty_world\<lparr>stock_data := [(''apple'', PyInt 7)],
        files := (\<lambda>path. TextFile ''{oops'')\<rparr>))) = [(''apple'', PyInt 7)] \<and>
   stock_data (snd (load_data (\<lambda>content. Some (PyList [PyInt 1, PyInt 2])) ''inventory.json''
     (empty_world\<lparr>stock_data := [(''apple'', PyInt 7)],
        files := (\<lambda>path. TextFile ''[1, 2]'')\<rparr>))) = [(''apple'', PyInt 7)]"
  using
    failed_load_keeps_inventory
      [of "empty_world\<lparr>stock_data := [(''apple'', PyInt 7)]\<rparr>" "''inventory.json''"
          "\<lambda>content. None"]
    failed_load_keeps_inventory
      [of "empty_world\<lparr>stock_data := [(''apple'', PyInt 7)],
             files := (\<lambda>path. TextFile ''{oops'')\<rparr>" "''inventory.json''"
          "\<lambda>content. None"]
    failed_load_keeps_inventory
      [of "empty_world\<lparr>stock_data := [(''apple'', PyInt 7)],
             files := (\<lambda>path. TextFile ''[1, 2]'')\<rparr>" "''inventory.json''"
          "\<lambda>content. Some (PyList [PyInt 1, PyInt 2])"]
  by (simp add: empty_world_def)





text \<open>
  Where \<^verbatim>\<open>open\<close> cannot write (a missing directory, say), \<^verbatim>\<open>save_data\<close> logs the error
  and writes nothing; where \<^verbatim>\<open>json.dump\<close> raises, the exception leaves \<^verbatim>\<open>save_data\<close>.
\<close>

lemma save_data_not_writable:
  "\<not> writable w file \<Longrightarrow>
   save_data json_dumps file w =
     (Return (), log_exception ''save_data: failed to write to %s'' [ArgVal (PyStr file)] w)"
  by (simp add: save_data_def)

lemma save_data_dump_raises:
  "files w file \<noteq> OpenFails \<Longrightarrow> writable w file \<Longrightarrow>
   json_dumps (PyDict (stock_data w)) = DumpRaises part \<Longrightarrow>
   save_data json_dumps file w =
     (Raise ValueError, w\<lparr>files := (files w)(file := TextFile part)\<rparr>)"
  by (simp add: save_data_def)

section \<open>The demonstration run\<close>

text \<open>
  The inventory calls of \<^verbatim>\<open>main\<close>, in its order: apple stands at 7, and banana and orange
  are the items below the default threshold 5.
\<close>

lemma main_scenario:
  "fst (run [Add ''t1'' (PyStr ''apple'') (PyInt 10) None,
             Add ''t2'' (PyStr ''banana'') (PyInt 2) None,
             Add ''t3'' (PyStr ''orange'') (PyInt 5) None,
             Remove (PyStr ''apple'') (PyInt 3),
             Remove (PyStr ''orange'') (PyInt 1)] empty_world) =
     [Return (), Return (), Return (), Return (), Return ()] \<and>
   fst (get_qty (PyStr ''apple'')
     (snd (run [Add ''t1'' (PyStr ''apple'') (PyInt 10) None,
                Add ''t2'' (PyStr ''banana'') (PyInt 2) None,
                Add ''t3'' (PyStr ''orange'') (PyInt 5) None,
                Remove (PyStr ''apple'') (PyInt 3),
                Remove (PyStr ''orange'') (PyInt 1)] empty_world))) = Return (PyInt 7) \<and>
   fst (check_low_items (PyInt 5)
     (snd (run [Add ''t1'' (PyStr ''apple'') (PyInt 10) None,
                Add ''t2'' (PyStr ''banana'') (PyInt 2) None,
                Add ''t3'' (PyStr ''orange'') (PyInt 5) None,
                Remove (PyStr ''apple'') (PyInt 3),
                Remove (PyStr ''orange'') (PyInt 1)] empty_world))) =
     Return [''banana'', ''orange'']"
  by (simp add: add_item_def remove_item_def get_qty_def check_low_items_def dict_get_def
                empty_world_def str_int_fits_small)

text \<open>A successful add appends its message to the caller's list.\<close>

lemma add_item_log_entry:
  "fst (add_item ''2026-01-01'' (PyStr ''a'') (PyInt 12) (Some []) empty_world) =
     Return (Some [''2026-01-01: Added 12 of a''])"
  by (simp add: add_item_def dict_get_def empty_world_def dec_int_def dec_nat.simps
                str_int_fits_small)

text \<open>
  An add of an integer of 4301 digits stores the quantity and then raises at the
  f-string, with or without a list from the caller.
\<close>

lemma add_item_huge_raises:
  "add_item now (PyStr ''a'') (PyInt (10 ^ max_str_digits)) None empty_world =
     (Raise ValueError, empty_world\<lparr>stock_data := [(''a'', PyInt (10 ^ max_str_digits))]\<rparr>)"
  by (simp add: add_item_def dict_get_def empty_world_def str_int_fits_limit)

end
